theory Spec2Isabelle
  imports Main "HOL-Library.Sublist" "HOL-Library.AList"
begin

section \<open>JavaScript strings\<close>

text \<open>
  A string is the list of its UTF-16 code units, and a character here is a code
  unit below 256: the texts are those of the Latin-1 range. On these
  \<open>toLowerCase\<close> works unit by unit. It maps A to Z to a to z and the capital
  letters from 0xC0 to 0xDE, the multiplication sign 0xD7 apart, to the unit 32
  higher, and leaves every other unit alone.
\<close>

definition upper_letters :: string where
  "upper_letters = ''ABCDEFGHIJKLMNOPQRSTUVWXYZ'' @ [
      CHR 0xC0, CHR 0xC1, CHR 0xC2, CHR 0xC3, CHR 0xC4, CHR 0xC5, CHR 0xC6, CHR 0xC7,
      CHR 0xC8, CHR 0xC9, CHR 0xCA, CHR 0xCB, CHR 0xCC, CHR 0xCD, CHR 0xCE, CHR 0xCF,
      CHR 0xD0, CHR 0xD1, CHR 0xD2, CHR 0xD3, CHR 0xD4, CHR 0xD5, CHR 0xD6, CHR 0xD8,
      CHR 0xD9, CHR 0xDA, CHR 0xDB, CHR 0xDC, CHR 0xDD, CHR 0xDE]"

definition lower_letters :: string where
  "lower_letters = ''abcdefghijklmnopqrstuvwxyz'' @ [
      CHR 0xE0, CHR 0xE1, CHR 0xE2, CHR 0xE3, CHR 0xE4, CHR 0xE5, CHR 0xE6, CHR 0xE7,
      CHR 0xE8, CHR 0xE9, CHR 0xEA, CHR 0xEB, CHR 0xEC, CHR 0xED, CHR 0xEE, CHR 0xEF,
      CHR 0xF0, CHR 0xF1, CHR 0xF2, CHR 0xF3, CHR 0xF4, CHR 0xF5, CHR 0xF6, CHR 0xF8,
      CHR 0xF9, CHR 0xFA, CHR 0xFB, CHR 0xFC, CHR 0xFD, CHR 0xFE]"

definition lc :: "char \<Rightarrow> char" where
  "lc c = (case map_of (zip upper_letters lower_letters) c of Some d \<Rightarrow> d | None \<Rightarrow> c)"

definition toLowerCase :: "string \<Rightarrow> string" where
  "toLowerCase s = map lc s"

text \<open>
  \<open>hay.includes(needle)\<close>: the needle occurs as a contiguous run of the hay
  (\<open>includes\<close> alone is a reserved word of the theory language).
\<close>

fun includes_str :: "string \<Rightarrow> string \<Rightarrow> bool" where
  "includes_str [] n = (n = [])"
| "includes_str (c # cs) n = (prefix n (c # cs) \<or> includes_str cs n)"

text \<open>
  Truthiness of an optional string (a query parameter or a field of a JSON body):
  \<open>undefined\<close> and the empty string are falsy.
\<close>

definition truthy :: "string option \<Rightarrow> bool" where
  "truthy p = (case p of None \<Rightarrow> False | Some s \<Rightarrow> s \<noteq> [])"

text \<open>
  What the specification calls a case-insensitive match: some window of the hay,
  as long as the needle, agrees with the needle letter by letter up to case.
\<close>

definition ci_equal :: "string \<Rightarrow> string \<Rightarrow> bool" where
  "ci_equal a b = list_all2 (\<lambda>x y. lc x = lc y) a b"

definition ci_contains :: "string \<Rightarrow> string \<Rightarrow> bool" where
  "ci_contains hay needle =
     list_ex (\<lambda>i. ci_equal (take (length needle) (drop i hay)) needle) [0..<Suc (length hay)]"

section \<open>The catalogue: produce, farms, search\<close>

text \<open>
  \<open>produce.json\<close> holds categories, each with its items; \<open>farms.json\<close> holds the
  farms. The handlers read the fields below; what else an item or a farm holds
  plays no part in them. The two servers, \<open>backend/server.js\<close> and the later one,
  have the same \<open>/api/produce\<close> and \<open>/api/search\<close> routes.
\<close>

record item =
  item_id :: string
  item_name :: string
  season :: string

record produce_category =
  cat_id :: string
  cat_name :: string
  cat_items :: "item list"


text \<open>The object \<open>{...item, category: cat.name, categoryId: cat.id}\<close>.\<close>

record listed =
  produce :: item
  category :: string
  categoryId :: string

definition merged :: "produce_category \<Rightarrow> item \<Rightarrow> listed" where
  "merged cat it = \<lparr>produce = it, category = cat_name cat, categoryId = cat_id cat\<rparr>"

subsection \<open>\<open>GET /api/produce\<close>\<close>

text \<open>
  The \<open>forEach\<close> over the categories pushes the items of every category that
  passes \<open>!category || cat.id === category\<close>.
\<close>

definition collect :: "string option \<Rightarrow> produce_category list \<Rightarrow> listed list" where
  "collect category_q cats =
     foldl (\<lambda>acc cat.
              if \<not> truthy category_q \<or> Some (cat_id cat) = category_q
              then acc @ map (merged cat) (cat_items cat)
              else acc) [] cats"

definition season_ok :: "string \<Rightarrow> listed \<Rightarrow> bool" where
  "season_ok s x =
     (includes_str (toLowerCase (season (produce x))) (toLowerCase s)
      \<or> toLowerCase (season (produce x)) = ''year-round'')"

record produce_response =
  p_count :: nat
  p_items :: "listed list"

definition get_produce ::
  "produce_category list \<Rightarrow> string option \<Rightarrow> string option \<Rightarrow> produce_response" where
  "get_produce cats category_q season_q =
     (let items0 = collect category_q cats;
          items1 = (case season_q of
                      None \<Rightarrow> items0
                    | Some s \<Rightarrow> if s \<noteq> [] then filter (season_ok s) items0 else items0)
      in \<lparr>p_count = length items1, p_items = items1\<rparr>)"

subsection \<open>\<open>GET /api/search\<close>\<close>





section \<open>JSON values and table rows\<close>

text \<open>
  A stored object (a row of a hosted table, an entry of a JSON file) is a list of
  fields; a field that is missing reads as \<open>undefined\<close>, here \<open>None\<close>. A value is
  \<open>null\<close>, a string, a boolean, or any other JSON value: a number, an array, an
  object. Of such a value the code only uses whether it is truthy and the text that
  \<open>String\<close> makes of it, and \<open>JOther\<close> carries these two.
\<close>

datatype jval = JNull | JStr string | JBool bool | JOther bool string

type_synonym row = "(string \<times> jval) list"

definition field :: "row \<Rightarrow> string \<Rightarrow> jval option" where
  "field r k = map_of r k"

definition jtruthy :: "jval option \<Rightarrow> bool" where
  "jtruthy v = (case v of
                  None \<Rightarrow> False
                | Some JNull \<Rightarrow> False
                | Some (JStr s) \<Rightarrow> s \<noteq> []
                | Some (JBool b) \<Rightarrow> b
                | Some (JOther t s) \<Rightarrow> t)"

text \<open>\<open>String(val)\<close>.\<close>

fun to_String :: "jval \<Rightarrow> string" where
  "to_String (JStr s) = s"
| "to_String (JBool b) = (if b then ''true'' else ''false'')"
| "to_String JNull = ''null''"
| "to_String (JOther t s) = s"

text \<open>\<open>value || null\<close> for an optional string.\<close>

definition or_null :: "string option \<Rightarrow> jval" where
  "or_null v = (case v of None \<Rightarrow> JNull | Some s \<Rightarrow> if s = [] then JNull else JStr s)"

text \<open>\<open>...(value && { key: value })\<close>: the field is present when the value is truthy.\<close>

definition when_truthy :: "string \<Rightarrow> string option \<Rightarrow> row" where
  "when_truthy k v = (case v of None \<Rightarrow> [] | Some s \<Rightarrow> if s = [] then [] else [(k, JStr s)])"

section \<open>The hosted table\<close>

text \<open>
  The handlers reach the \<open>blog_posts\<close> table (and the client helpers the \<open>farms\<close>
  table) through the REST interface of the hosted database, which is not part of
  the repository. The requests the code sends are the constructors of \<open>call\<close>;
  \<open>apply_call\<close> is what the service does with a request it accepts: the new table
  and the rows it answers with. Every request is appended to \<open>log\<close>. The service
  answers the next request as the head of \<open>pending\<close> says (with a 2xx when the
  list is empty): \<open>Accept\<close> performs the request, \<open>Refuse\<close> answers with a non-2xx
  status and a text and leaves the table alone, \<open>Unreachable\<close> makes \<open>fetch\<close>
  itself throw. A row belongs to an id when its \<open>id\<close> column is that string; the
  order in which \<open>Select_all\<close> (\<open>?order=created_at.desc\<close>) lists the rows is left to
  the table.
\<close>

datatype call =
  Select_owner string
| Select_id string
| Select_all
| Insert row
| Patch string row
| Delete string

datatype reply = Accept | Refuse nat string | Unreachable string

record world =
  rows :: "row list"
  pending :: "reply list"
  log :: "call list"

datatype fetched =
  Threw string
| Error_response nat string
| Ok_response "row list"

definition has_id :: "string \<Rightarrow> row \<Rightarrow> bool" where
  "has_id i r = (field r ''id'' = Some (JStr i))"

definition owner_column :: "row \<Rightarrow> row" where
  "owner_column r = [(''owner_id'', (case field r ''owner_id'' of None \<Rightarrow> JNull | Some v \<Rightarrow> v))]"

fun apply_call :: "call \<Rightarrow> row list \<Rightarrow> row list \<times> row list" where
  "apply_call (Select_owner i) t = (t, map owner_column (filter (has_id i) t))"
| "apply_call (Select_id i) t = (t, filter (has_id i) t)"
| "apply_call Select_all t = (t, t)"
| "apply_call (Insert r) t = (t @ [r], [r])"
| "apply_call (Patch i p) t =
     (map (\<lambda>r. if has_id i r then AList.merge r p else r) t,
      map (\<lambda>r. AList.merge r p) (filter (has_id i) t))"
| "apply_call (Delete i) t = (filter (\<lambda>r. \<not> has_id i r) t, [])"

definition upcoming :: "world \<Rightarrow> reply" where
  "upcoming w = (case pending w of [] \<Rightarrow> Accept | r # _ \<Rightarrow> r)"

definition fetch :: "call \<Rightarrow> world \<Rightarrow> fetched \<times> world" where
  "fetch c w =
     (let w1 = w\<lparr>pending := tl (pending w), log := log w @ [c]\<rparr>
      in case upcoming w of
           Accept \<Rightarrow> (Ok_response (snd (apply_call c (rows w))),
                       w1\<lparr>rows := fst (apply_call c (rows w))\<rparr>)
         | Refuse st txt \<Rightarrow> (Error_response st txt, w1)
         | Unreachable msg \<Rightarrow> (Threw msg, w1))"

section \<open>The blog-post admin function\<close>

text \<open>
  The environment of the function, the event it receives and the response it
  returns. \<open>JSON.parse(event.body || '{}')\<close> either throws or gives an object whose
  fields \<open>id\<close>, \<open>title\<close>, \<open>category\<close>, \<open>content\<close>, \<open>read_time\<close> and \<open>owner_id\<close> are
  strings or absent. Every response carries the same CORS headers, which are left
  out. \<open>Error_json e\<close> is the body \<open>JSON.stringify({ error: e })\<close>, \<open>Rows\<close> the
  representation the table answered with, \<open>Deleted_json i\<close> the body
  \<open>JSON.stringify({ message: 'Deleted successfully', id: i })\<close>.
\<close>

record env =
  SUPABASE_URL :: "string option"
  SUPABASE_SERVICE_ROLE_KEY :: "string option"
  ADMIN_API_KEY :: "string option"

record fields =
  b_id :: "string option"
  b_title :: "string option"
  b_category :: "string option"
  b_content :: "string option"
  b_read_time :: "string option"
  b_owner_id :: "string option"

datatype payload = Malformed string | Object fields

record event =
  httpMethod :: string
  headers :: "(string \<times> string) list"
  payload :: payload
  query_id :: "string option"

datatype body = Empty | Error_json string | Text string | Rows "row list" | Deleted_json string

record response =
  statusCode :: nat
  body :: body

text \<open>The \<open>catch\<close> at the bottom of a handler.\<close>

definition caught :: "string \<Rightarrow> response" where
  "caught msg = \<lparr>statusCode = 500, body = Error_json (if msg = [] then ''Server error'' else msg)\<rparr>"

text \<open>
  \<open>isValidUUID\<close>: the regular expression
  \<open>/^[0-9a-f]{8}-[0-9a-f]{4}-4[0-9a-f]{3}-[89ab][0-9a-f]{3}-[0-9a-f]{12}$/i\<close>,
  position by position.
\<close>

datatype uuid_class = Hex | Dash | Four | Variant

fun matches :: "uuid_class \<Rightarrow> char \<Rightarrow> bool" where
  "matches Hex c = (c \<in> set ''0123456789abcdefABCDEF'')"
| "matches Dash c = (c = CHR ''-'')"
| "matches Four c = (c = CHR ''4'')"
| "matches Variant c = (c \<in> set ''89abAB'')"

definition uuidRegex :: "uuid_class list" where
  "uuidRegex =
     [Hex, Hex, Hex, Hex, Hex, Hex, Hex, Hex, Dash,
      Hex, Hex, Hex, Hex, Dash,
      Four, Hex, Hex, Hex, Dash,
      Variant, Hex, Hex, Hex, Dash,
      Hex, Hex, Hex, Hex, Hex, Hex, Hex, Hex, Hex, Hex, Hex, Hex]"

definition isValidUUID :: "string \<Rightarrow> bool" where
  "isValidUUID str = list_all2 matches uuidRegex str"

text \<open>\<open>s.replace(pat, rep)\<close> with a string pattern: the first occurrence only.\<close>

fun replace_first :: "string \<Rightarrow> string \<Rightarrow> string \<Rightarrow> string" where
  "replace_first pat rep [] = (if pat = [] then rep else [])"
| "replace_first pat rep (c # cs) =
     (if prefix pat (c # cs) then rep @ drop (length pat) (c # cs)
      else c # replace_first pat rep cs)"

datatype auth = Authorized | Unauthorized string

definition authHeader :: "event \<Rightarrow> string option" where
  "authHeader ev =
     (if truthy (map_of (headers ev) ''authorization'')
      then map_of (headers ev) ''authorization''
      else map_of (headers ev) ''Authorization'')"

definition verifyAdminAuth :: "env \<Rightarrow> event \<Rightarrow> auth" where
  "verifyAdminAuth cfg ev =
     (case authHeader ev of
        None \<Rightarrow> Unauthorized ''Missing Authorization header''
      | Some h \<Rightarrow>
          if h = [] then Unauthorized ''Missing Authorization header''
          else if \<not> truthy (ADMIN_API_KEY cfg)
                  \<or> Some (replace_first ''Bearer '' [] h) \<noteq> ADMIN_API_KEY cfg
          then Unauthorized ''Invalid or unauthorized API key''
          else Authorized)"

text \<open>
  What a handler answers when the table refuses its request: the status of the
  table, with the text of the table or, when that is empty, the handler's own body.
\<close>

definition upstream_failed :: "nat \<Rightarrow> string \<Rightarrow> body \<Rightarrow> response" where
  "upstream_failed st txt fallback = \<lparr>statusCode = st, body = (if txt = [] then fallback else Text txt)\<rparr>"

text \<open>
  The ownership check that the PUT and the DELETE branch both carry: \<open>Some r\<close> is
  the response the handler returns at once, \<open>None\<close> lets it go on.
\<close>

definition ownership_check :: "string \<Rightarrow> string option \<Rightarrow> world \<Rightarrow> response option \<times> world" where
  "ownership_check i owner w =
     (case owner of
        None \<Rightarrow> (None, w)
      | Some ow \<Rightarrow>
          if ow = [] then (None, w)
          else (case fetch (Select_owner i) w of
                  (Threw msg, w1) \<Rightarrow> (Some (caught msg), w1)
                | (Error_response st txt, w1) \<Rightarrow> (None, w1)
                | (Ok_response existingPosts, w1) \<Rightarrow>
                    (case existingPosts of
                       [] \<Rightarrow> (None, w1)
                     | p # _ \<Rightarrow>
                         if jtruthy (field p ''owner_id'') \<and> field p ''owner_id'' \<noteq> Some (JStr ow)
                         then (Some \<lparr>statusCode = 403,
                                     body = Error_json ''Access denied. You do not own this resource.''\<rparr>, w1)
                         else (None, w1))))"

definition updatePayload :: "fields \<Rightarrow> string \<Rightarrow> row" where
  "updatePayload b now =
     when_truthy ''title'' (b_title b) @ when_truthy ''category'' (b_category b)
     @ when_truthy ''content'' (b_content b)
     @ (case b_read_time b of None \<Rightarrow> [] | Some t \<Rightarrow> [(''read_time'', JStr t)])
     @ [(''updated_at'', JStr now)]"

definition post_branch :: "string \<Rightarrow> string \<Rightarrow> event \<Rightarrow> world \<Rightarrow> response \<times> world" where
  "post_branch now uuid ev w =
     (case payload ev of
        Malformed msg \<Rightarrow> (caught msg, w)
      | Object b \<Rightarrow>
          if \<not> truthy (b_title b) \<or> \<not> truthy (b_category b) \<or> \<not> truthy (b_content b)
          then (\<lparr>statusCode = 400, body = Error_json ''title, category, and content are required.''\<rparr>, w)
          else (case fetch (Insert [(''id'', JStr uuid), (''title'', or_null (b_title b)),
                                    (''category'', or_null (b_category b)),
                                    (''content'', or_null (b_content b)),
                                    (''read_time'', or_null (b_read_time b)),
                                    (''owner_id'', or_null (b_owner_id b)),
                                    (''created_at'', JStr now), (''updated_at'', JStr now)]) w of
                  (Threw msg, w1) \<Rightarrow> (caught msg, w1)
                | (Error_response st txt, w1) \<Rightarrow> (upstream_failed st txt (Error_json ''Insert failed.''), w1)
                | (Ok_response out, w1) \<Rightarrow> (\<lparr>statusCode = 201, body = Rows out\<rparr>, w1)))"

definition put_branch :: "string \<Rightarrow> event \<Rightarrow> world \<Rightarrow> response \<times> world" where
  "put_branch now ev w =
     (case payload ev of
        Malformed msg \<Rightarrow> (caught msg, w)
      | Object b \<Rightarrow>
          (case b_id b of
             None \<Rightarrow> (\<lparr>statusCode = 400, body = Error_json ''id is required to update.''\<rparr>, w)
           | Some i \<Rightarrow>
               if i = []
               then (\<lparr>statusCode = 400, body = Error_json ''id is required to update.''\<rparr>, w)
               else if \<not> isValidUUID i
               then (\<lparr>statusCode = 400, body = Error_json ''Invalid UUID format for id.''\<rparr>, w)
               else (case ownership_check i (b_owner_id b) w of
                       (Some r, w1) \<Rightarrow> (r, w1)
                     | (None, w1) \<Rightarrow>
                         (case fetch (Patch i (updatePayload b now)) w1 of
                            (Threw msg, w2) \<Rightarrow> (caught msg, w2)
                          | (Error_response st txt, w2) \<Rightarrow>
                              (upstream_failed st txt (Error_json ''Update failed.''), w2)
                          | (Ok_response out, w2) \<Rightarrow>
                              (\<lparr>statusCode = 200, body = Rows out\<rparr>, w2)))))"

definition delete_branch :: "event \<Rightarrow> world \<Rightarrow> response \<times> world" where
  "delete_branch ev w =
     (case payload ev of
        Malformed msg \<Rightarrow> (caught msg, w)
      | Object b \<Rightarrow>
          (case b_id b of
             None \<Rightarrow> (\<lparr>statusCode = 400, body = Error_json ''id is required to delete.''\<rparr>, w)
           | Some i \<Rightarrow>
               if i = []
               then (\<lparr>statusCode = 400, body = Error_json ''id is required to delete.''\<rparr>, w)
               else if \<not> isValidUUID i
               then (\<lparr>statusCode = 400, body = Error_json ''Invalid UUID format for id.''\<rparr>, w)
               else (case ownership_check i (b_owner_id b) w of
                       (Some r, w1) \<Rightarrow> (r, w1)
                     | (None, w1) \<Rightarrow>
                         (case fetch (Delete i) w1 of
                            (Threw msg, w2) \<Rightarrow> (caught msg, w2)
                          | (Error_response st txt, w2) \<Rightarrow>
                              (upstream_failed st txt (Error_json ''Delete failed.''), w2)
                          | (Ok_response out, w2) \<Rightarrow>
                              (\<lparr>statusCode = 200, body = Deleted_json i\<rparr>, w2)))))"

definition fetch_posts :: "call \<Rightarrow> world \<Rightarrow> response \<times> world" where
  "fetch_posts url w =
     (case fetch url w of
        (Threw msg, w1) \<Rightarrow> (caught msg, w1)
      | (Error_response st txt, w1) \<Rightarrow> (upstream_failed st txt (Error_json ''Fetch failed.''), w1)
      | (Ok_response out, w1) \<Rightarrow> (\<lparr>statusCode = 200, body = Rows out\<rparr>, w1))"

definition get_branch :: "event \<Rightarrow> world \<Rightarrow> response \<times> world" where
  "get_branch ev w =
     (case query_id ev of
        None \<Rightarrow> fetch_posts Select_all w
      | Some i \<Rightarrow>
          if i = [] then fetch_posts Select_all w
          else if \<not> isValidUUID i
          then (\<lparr>statusCode = 400, body = Error_json ''Invalid UUID format for id.''\<rparr>, w)
          else fetch_posts (Select_id i) w)"

text \<open>
  The handler: \<open>now\<close> is the reading of the clock (\<open>new Date().toISOString()\<close>),
  \<open>uuid\<close> what \<open>crypto.randomUUID()\<close> returns.
\<close>

definition handler :: "env \<Rightarrow> string \<Rightarrow> string \<Rightarrow> event \<Rightarrow> world \<Rightarrow> response \<times> world" where
  "handler cfg now uuid ev w =
     (if httpMethod ev = ''OPTIONS'' then (\<lparr>statusCode = 200, body = Empty\<rparr>, w)
      else if \<not> truthy (SUPABASE_URL cfg) \<or> \<not> truthy (SUPABASE_SERVICE_ROLE_KEY cfg)
      then (\<lparr>statusCode = 500,
              body = Error_json ''Missing SUPABASE_URL or SUPABASE_SERVICE_ROLE_KEY env vars.''\<rparr>, w)
      else (case (if httpMethod ev \<in> set [''POST'', ''PUT'', ''DELETE'']
                  then verifyAdminAuth cfg ev else Authorized) of
              Unauthorized e \<Rightarrow> (\<lparr>statusCode = 401, body = Error_json e\<rparr>, w)
            | Authorized \<Rightarrow>
                if httpMethod ev = ''POST'' then post_branch now uuid ev w
                else if httpMethod ev = ''PUT'' then put_branch now ev w
                else if httpMethod ev = ''DELETE'' then delete_branch ev w
                else if httpMethod ev = ''GET'' then get_branch ev w
                else (\<lparr>statusCode = 405, body = Error_json ''Method Not Allowed''\<rparr>, w)))"

subsection \<open>The older function \<open>netlify/functions/blog-post.js\<close>\<close>

text \<open>
  It serves POST and DELETE only, reads no \<open>Authorization\<close> header, validates no
  id and answers with plain texts.
\<close>

definition blog_post_handler :: "env \<Rightarrow> string \<Rightarrow> event \<Rightarrow> world \<Rightarrow> response \<times> world" where
  "blog_post_handler cfg now ev w =
     (if httpMethod ev = ''OPTIONS'' then (\<lparr>statusCode = 200, body = Empty\<rparr>, w)
      else if \<not> truthy (SUPABASE_URL cfg) \<or> \<not> truthy (SUPABASE_SERVICE_ROLE_KEY cfg)
      then (\<lparr>statusCode = 500,
              body = Text ''Missing SUPABASE_URL or SUPABASE_SERVICE_ROLE_KEY env vars.''\<rparr>, w)
      else if httpMethod ev = ''POST'' then
        (case payload ev of
           Malformed msg \<Rightarrow> (\<lparr>statusCode = 500, body = Text (if msg = [] then ''Server error'' else msg)\<rparr>, w)
         | Object b \<Rightarrow>
             if \<not> truthy (b_title b) \<or> \<not> truthy (b_category b) \<or> \<not> truthy (b_content b)
             then (\<lparr>statusCode = 400, body = Text ''title, category, and content are required.''\<rparr>, w)
             else (case fetch (Insert [(''title'', or_null (b_title b)),
                                       (''category'', or_null (b_category b)),
                                       (''content'', or_null (b_content b)),
                                       (''read_time'', or_null (b_read_time b)),
                                       (''created_at'', JStr now)]) w of
                     (Threw msg, w1) \<Rightarrow>
                       (\<lparr>statusCode = 500, body = Text (if msg = [] then ''Server error'' else msg)\<rparr>, w1)
                   | (Error_response st txt, w1) \<Rightarrow> (upstream_failed st txt (Text ''Insert failed.''), w1)
                   | (Ok_response out, w1) \<Rightarrow> (\<lparr>statusCode = 200, body = Rows out\<rparr>, w1)))
      else if httpMethod ev = ''DELETE'' then
        (case payload ev of
           Malformed msg \<Rightarrow> (\<lparr>statusCode = 500, body = Text (if msg = [] then ''Server error'' else msg)\<rparr>, w)
         | Object b \<Rightarrow>
             (case b_id b of
                None \<Rightarrow> (\<lparr>statusCode = 400, body = Text ''id is required to delete.''\<rparr>, w)
              | Some i \<Rightarrow>
                  if i = []
                  then (\<lparr>statusCode = 400, body = Text ''id is required to delete.''\<rparr>, w)
                  else (case fetch (Delete i) w of
                          (Threw msg, w1) \<Rightarrow>
                            (\<lparr>statusCode = 500,
                               body = Text (if msg = [] then ''Server error'' else msg)\<rparr>, w1)
                        | (Error_response st txt, w1) \<Rightarrow>
                            (upstream_failed st txt (Text ''Delete failed.''), w1)
                        | (Ok_response out, w1) \<Rightarrow>
                            (\<lparr>statusCode = 200, body = Text ''Deleted''\<rparr>, w1))))
      else (\<lparr>statusCode = 405, body = Text ''Method Not Allowed''\<rparr>, w))"

section \<open>The client-side farm helpers\<close>

text \<open>
  \<open>api.updateFarm\<close> and \<open>api.deleteFarm\<close> talk to the \<open>farms\<close> table through the
  database client, which reports a failure as the \<open>error\<close> of its \<open>{ data, error }\<close>
  result instead of throwing. \<open>user\<close> is the id of the signed-in user, if any
  (\<open>getCurrentUserId\<close>).
\<close>

datatype farm_result = Failure string | Success "row list"

definition getCurrentUserId :: "string option \<Rightarrow> jval option" where
  "getCurrentUserId user = Some (or_null user)"

text \<open>\<open>.select('owner_id').eq('id', farmId).single()\<close>: exactly one row, or an error.\<close>

definition select_owner_single :: "string \<Rightarrow> world \<Rightarrow> (string + row) \<times> world" where
  "select_owner_single farmId w =
     (case fetch (Select_owner farmId) w of
        (Threw msg, w1) \<Rightarrow> (Inl msg, w1)
      | (Error_response st txt, w1) \<Rightarrow> (Inl txt, w1)
      | (Ok_response out, w1) \<Rightarrow>
          (case out of
             [r] \<Rightarrow> (Inr r, w1)
           | _ \<Rightarrow> (Inl ''JSON object requested, multiple (or no) rows returned'', w1)))"

definition client_result :: "fetched \<times> world \<Rightarrow> farm_result \<times> world" where
  "client_result fw =
     (case fw of
        (Threw msg, w1) \<Rightarrow> (Failure msg, w1)
      | (Error_response st txt, w1) \<Rightarrow> (Failure txt, w1)
      | (Ok_response out, w1) \<Rightarrow> (Success out, w1))"

definition updateFarm ::
  "string option \<Rightarrow> string \<Rightarrow> string \<Rightarrow> row \<Rightarrow> world \<Rightarrow> farm_result \<times> world" where
  "updateFarm user now farmId farmData w =
     (if \<not> isValidUUID farmId then (Failure ''Invalid UUID format'', w)
      else (case select_owner_single farmId w of
              (Inl fetchError, w1) \<Rightarrow> (Failure fetchError, w1)
            | (Inr existing, w1) \<Rightarrow>
                if jtruthy (field existing ''owner_id'')
                   \<and> field existing ''owner_id'' \<noteq> getCurrentUserId user
                then (Failure ''Access denied. You do not own this resource.'', w1)
                else client_result
                       (fetch (Patch farmId (AList.update ''updated_at'' (JStr now) farmData)) w1)))"

definition deleteFarm :: "string option \<Rightarrow> string \<Rightarrow> world \<Rightarrow> farm_result \<times> world" where
  "deleteFarm user farmId w =
     (if \<not> isValidUUID farmId then (Failure ''Invalid UUID format'', w)
      else (case select_owner_single farmId w of
              (Inl fetchError, w1) \<Rightarrow> (Failure fetchError, w1)
            | (Inr existing, w1) \<Rightarrow>
                if jtruthy (field existing ''owner_id'')
                   \<and> field existing ''owner_id'' \<noteq> getCurrentUserId user
                then (Failure ''Access denied. You do not own this resource.'', w1)
                else client_result (fetch (Delete farmId) w1)))"

section \<open>The waitlist\<close>




text \<open>
  The test \<open>/^[^\s@]+@[^\s@]+\.[^\s@]+$/\<close>. Only the class of each character
  matters: white space, the at sign, the dot, anything else. White space is what
  \<open>\s\<close> matches below 256: tab, line feed, vertical tab, form feed, carriage
  return, space and the no-break space 0xA0. The local part is the longest run
  without white space and at sign; after the at sign, the rest must be free of
  both and have a dot that is neither its first nor its last character.
\<close>

datatype email_class = Space | At | Dot | Other

definition whitespace :: string where
  "whitespace = [CHR 0x09, CHR 0x0A, CHR 0x0B, CHR 0x0C, CHR 0x0D, CHR '' '', CHR 0xA0]"

definition email_class :: "char \<Rightarrow> email_class" where
  "email_class c =
     (if c \<in> set whitespace then Space
      else if c = CHR ''@'' then At
      else if c = CHR ''.'' then Dot
      else Other)"

definition plain :: "email_class \<Rightarrow> bool" where
  "plain k = (k = Dot \<or> k = Other)"

definition emailRegex_test :: "string \<Rightarrow> bool" where
  "emailRegex_test s =
     (let ks = map email_class s in
      takeWhile plain ks \<noteq> []
      \<and> (case dropWhile plain ks of
            At # d \<Rightarrow> list_all plain d \<and> Dot \<in> set (butlast (tl d))
          | _ \<Rightarrow> False))"









section \<open>The CSV export\<close>

definition dquote :: char where
  "dquote = CHR 0x22"

definition newline :: char where
  "newline = CHR 0x0A"

text \<open>\<open>str.replace(/"/g, '""')\<close>.\<close>

fun replace_quotes :: "string \<Rightarrow> string" where
  "replace_quotes [] = []"
| "replace_quotes (c # cs) =
     (if c = dquote then dquote # dquote # replace_quotes cs else c # replace_quotes cs)"

definition escape :: "jval option \<Rightarrow> string" where
  "escape val =
     (case val of
        None \<Rightarrow> []
      | Some JNull \<Rightarrow> []
      | Some v \<Rightarrow>
          (let str = replace_quotes (to_String v)
           in if includes_str str '','' \<or> includes_str str [newline]
              then [dquote] @ str @ [dquote] else str))"














section \<open>Sample data\<close>

text \<open>The configuration, the stored post and the requests used in the examples.\<close>

definition demo_env :: env where
  "demo_env = \<lparr>SUPABASE_URL = Some ''https://db.example'',
               SUPABASE_SERVICE_ROLE_KEY = Some ''service-key'',
               ADMIN_API_KEY = Some ''secret''\<rparr>"

definition demo_id :: string where
  "demo_id = ''123e4567-e89b-42d3-a456-426614174000''"

definition demo_post :: row where
  "demo_post = [(''id'', JStr demo_id), (''title'', JStr ''Harvest''),
                (''owner_id'', JStr ''A''), (''updated_at'', JStr ''t0'')]"

definition demo_world :: "reply list \<Rightarrow> world" where
  "demo_world rs = \<lparr>rows = [demo_post], pending = rs, log = []\<rparr>"

definition admin_token :: "(string \<times> string) list" where
  "admin_token = [(''authorization'', ''Bearer secret'')]"

definition demo_fields :: "string option \<Rightarrow> string option \<Rightarrow> fields" where
  "demo_fields i owner =
     \<lparr>b_id = i, b_title = Some ''Harvest 2'', b_category = None, b_content = None,
      b_read_time = None, b_owner_id = owner\<rparr>"

definition demo_request ::
  "string \<Rightarrow> (string \<times> string) list \<Rightarrow> string option \<Rightarrow> string option \<Rightarrow> event" where
  "demo_request m hs i owner =
     \<lparr>httpMethod = m, headers = hs, payload = Object (demo_fields i owner), query_id = None\<rparr>"




section \<open>Properties of the string functions\<close>

lemma includes_sublist: "includes_str hay n \<longleftrightarrow> sublist n hay"
  by (induction hay) (auto simp: sublist_Cons_right)

lemma includes_char: "includes_str s [c] \<longleftrightarrow> c \<in> set s"
  by (induction s) auto


lemma ci_equal_lower: "ci_equal a b \<longleftrightarrow> toLowerCase a = toLowerCase b"
  unfolding ci_equal_def toLowerCase_def
  by (induction a arbitrary: b) (auto simp: list_all2_Cons1)




section \<open>The catalogue queries\<close>

lemma foldl_push:
  "foldl (\<lambda>acc x. if P x then acc @ f x else acc) a xs
   = a @ concat (map (\<lambda>x. if P x then f x else []) xs)"
  by (induction xs arbitrary: a) auto

lemma collect_concat:
  "collect q cats = concat (map (\<lambda>cat. if \<not> truthy q \<or> Some (cat_id cat) = q
                                          then map (merged cat) (cat_items cat) else []) cats)"
  unfolding collect_def by (simp add: foldl_push)

lemma set_collect:
  "x \<in> set (collect q cats) \<longleftrightarrow>
     (\<exists>cat\<in>set cats. (\<not> truthy q \<or> Some (cat_id cat) = q) \<and> (\<exists>it\<in>set (cat_items cat). x = merged cat it))"
  unfolding collect_concat by auto

text \<open>
  C5, as amended. The category filter of \<open>GET /api/produce\<close> compares with
  \<open>===\<close>: for a non-empty \<open>category\<close> parameter an item is in the result if and only
  if the id of its category is the parameter itself, letter for letter, and, when
  a non-empty \<open>season\<close> parameter is given as well, the item passes the season filter.
\<close>

theorem produce_category_exact:
  assumes "c \<noteq> []"
  shows "x \<in> set (p_items (get_produce cats (Some c) season_q)) \<longleftrightarrow>
     (\<exists>cat\<in>set cats. \<exists>it\<in>set (cat_items cat).
        x = merged cat it \<and> cat_id cat = c
        \<and> (case season_q of None \<Rightarrow> True | Some s \<Rightarrow> s = [] \<or> season_ok s x))"
  using assms unfolding get_produce_def Let_def
  by (auto simp: set_collect truthy_def split: option.splits)

text \<open>The theorem at \<open>?category=greens\<close>.\<close>

theorem produce_category_exact_witness:
  "merged \<lparr>cat_id = ''greens'', cat_name = ''Leafy Greens'',
            cat_items = [\<lparr>item_id = ''kontomire'', item_name = ''Kontomire'', season = ''rainy''\<rparr>]\<rparr>
          \<lparr>item_id = ''kontomire'', item_name = ''Kontomire'', season = ''rainy''\<rparr>
   \<in> set (p_items (get_produce
        [\<lparr>cat_id = ''greens'', cat_name = ''Leafy Greens'',
          cat_items = [\<lparr>item_id = ''kontomire'', item_name = ''Kontomire'', season = ''rainy''\<rparr>]\<rparr>]
        (Some ''greens'') None))"
  using produce_category_exact [of "''greens''"
      "merged \<lparr>cat_id = ''greens'', cat_name = ''Leafy Greens'',
            cat_items = [\<lparr>item_id = ''kontomire'', item_name = ''Kontomire'', season = ''rainy''\<rparr>]\<rparr>
          \<lparr>item_id = ''kontomire'', item_name = ''Kontomire'', season = ''rainy''\<rparr>"
      "[\<lparr>cat_id = ''greens'', cat_name = ''Leafy Greens'',
          cat_items = [\<lparr>item_id = ''kontomire'', item_name = ''Kontomire'', season = ''rainy''\<rparr>]\<rparr>]"
      None]
  by simp

text \<open>
  C5 as stated fails: \<open>?category=Greens\<close> matches the id \<open>greens\<close> up to case (and
  as a substring), and the result is empty.
\<close>

theorem produce_category_substring_counterexample:
  "ci_contains ''greens'' ''Greens''
   \<and> p_items (get_produce
        [\<lparr>cat_id = ''greens'', cat_name = ''Leafy Greens'',
          cat_items = [\<lparr>item_id = ''kontomire'', item_name = ''Kontomire'', season = ''rainy''\<rparr>]\<rparr>]
        (Some ''Greens'') None) = []"
  by code_simp







text \<open>
  C9, as amended. With a \<open>season\<close> parameter, whatever it is, every item whose season
  is \<open>year-round\<close> up to case is in the result, provided its category passes the
  category filter: no \<open>category\<close> parameter (or an empty one), or the id of the
  item's category.
\<close>

theorem year_round_kept:
  assumes "cat \<in> set cats" and "it \<in> set (cat_items cat)"
    and "\<not> truthy category_q \<or> category_q = Some (cat_id cat)"
    and "ci_equal (season it) ''year-round''"
  shows "merged cat it \<in> set (p_items (get_produce cats category_q (Some s)))"
proof -
  have "toLowerCase (season it) = ''year-round''"
  proof -
    have "toLowerCase ''year-round'' = ''year-round''" by code_simp
    with assms(4) show ?thesis by (simp add: ci_equal_lower)
  qed
  then have "season_ok s (merged cat it)" by (simp add: season_ok_def merged_def)
  moreover have "merged cat it \<in> set (collect category_q cats)"
    unfolding set_collect using assms(1-3) by auto
  ultimately show ?thesis by (simp add: get_produce_def Let_def)
qed

text \<open>The theorem at \<open>?season=harmattan\<close>, for an item in season \<open>Year-Round\<close>.\<close>

theorem year_round_kept_witness:
  "merged \<lparr>cat_id = ''fruits'', cat_name = ''Fruits'',
            cat_items = [\<lparr>item_id = ''banana'', item_name = ''Banana'', season = ''Year-Round''\<rparr>]\<rparr>
          \<lparr>item_id = ''banana'', item_name = ''Banana'', season = ''Year-Round''\<rparr>
   \<in> set (p_items (get_produce
        [\<lparr>cat_id = ''fruits'', cat_name = ''Fruits'',
          cat_items = [\<lparr>item_id = ''banana'', item_name = ''Banana'', season = ''Year-Round''\<rparr>]\<rparr>]
        None (Some ''harmattan'')))"
proof -
  have e: "ci_equal ''Year-Round'' ''year-round''" by code_simp
  show ?thesis
    using e year_round_kept [of
      "\<lparr>cat_id = ''fruits'', cat_name = ''Fruits'',
            cat_items = [\<lparr>item_id = ''banana'', item_name = ''Banana'', season = ''Year-Round''\<rparr>]\<rparr>"
      "[\<lparr>cat_id = ''fruits'', cat_name = ''Fruits'',
          cat_items = [\<lparr>item_id = ''banana'', item_name = ''Banana'', season = ''Year-Round''\<rparr>]\<rparr>]"
      "\<lparr>item_id = ''banana'', item_name = ''Banana'', season = ''Year-Round''\<rparr>"
      None "''harmattan''"]
    by (simp add: truthy_def)
qed

text \<open>
  C9 as stated fails: \<open>?category=greens&season=rainy\<close> carries a season parameter,
  and the year-round banana of the category \<open>fruits\<close> is not in the result.
\<close>

theorem year_round_other_category_counterexample:
  "ci_equal ''year-round'' ''year-round''
   \<and> p_items (get_produce
        [\<lparr>cat_id = ''fruits'', cat_name = ''Fruits'',
          cat_items = [\<lparr>item_id = ''banana'', item_name = ''Banana'', season = ''year-round''\<rparr>]\<rparr>,
         \<lparr>cat_id = ''greens'', cat_name = ''Leafy Greens'',
          cat_items = [\<lparr>item_id = ''kontomire'', item_name = ''Kontomire'', season = ''rainy''\<rparr>]\<rparr>]
        (Some ''greens'') (Some ''rainy''))
     = [\<lparr>produce = \<lparr>item_id = ''kontomire'', item_name = ''Kontomire'', season = ''rainy''\<rparr>,
         category = ''Leafy Greens'', categoryId = ''greens''\<rparr>]"
  by code_simp

section \<open>The blog-post functions and the farm helpers\<close>

lemma isValidUUID_length: "isValidUUID i \<Longrightarrow> length i = 36"
  unfolding isValidUUID_def uuidRegex_def by (auto dest!: list_all2_lengthD)

lemma isValidUUID_nonempty: "isValidUUID i \<Longrightarrow> i \<noteq> []"
  by (auto dest: isValidUUID_length)


lemma fetch_refuse:
  "upcoming w = Refuse st txt \<Longrightarrow>
   fetch c w = (Error_response st txt, w\<lparr>pending := tl (pending w), log := log w @ [c]\<rparr>)"
  by (simp add: fetch_def Let_def)

lemma fetch_unreachable:
  "upcoming w = Unreachable msg \<Longrightarrow>
   fetch c w = (Threw msg, w\<lparr>pending := tl (pending w), log := log w @ [c]\<rparr>)"
  by (simp add: fetch_def Let_def)



lemma upcoming_update [simp]:
  "upcoming (w\<lparr>pending := ps, log := l\<rparr>) = (case ps of [] \<Rightarrow> Accept | r # _ \<Rightarrow> r)"
  by (simp add: upcoming_def)









lemma ownership_check_refused:
  assumes "upcoming w = Refuse st txt" and "B \<noteq> []"
  shows "ownership_check i (Some B) w =
           (None, w\<lparr>pending := tl (pending w), log := log w @ [Select_owner i]\<rparr>)"
  using assms unfolding ownership_check_def by (simp add: fetch_refuse)

lemma put_branch_valid:
  assumes "payload ev = Object b" and "b_id b = Some i" and "isValidUUID i"
  shows "put_branch now ev w =
     (case ownership_check i (b_owner_id b) w of
        (Some r, w1) \<Rightarrow> (r, w1)
      | (None, w1) \<Rightarrow>
          (case fetch (Patch i (updatePayload b now)) w1 of
             (Threw msg, w2) \<Rightarrow> (caught msg, w2)
           | (Error_response st txt, w2) \<Rightarrow> (upstream_failed st txt (Error_json ''Update failed.''), w2)
           | (Ok_response out, w2) \<Rightarrow> (\<lparr>statusCode = 200, body = Rows out\<rparr>, w2)))"
  using assms isValidUUID_nonempty [of i] unfolding put_branch_def by simp

lemma handler_put:
  assumes "truthy (SUPABASE_URL cfg)" and "truthy (SUPABASE_SERVICE_ROLE_KEY cfg)"
    and "verifyAdminAuth cfg ev = Authorized" and "httpMethod ev = ''PUT''"
  shows "handler cfg now uuid ev w = put_branch now ev w"
  using assms unfolding handler_def by simp


lemmas demo_defs = demo_env_def demo_id_def demo_post_def demo_world_def admin_token_def
  demo_fields_def demo_request_def

lemma demo_id_valid: "isValidUUID demo_id"
  by (simp add: isValidUUID_def uuidRegex_def demo_id_def)

lemma demo_authorized:
  "verifyAdminAuth demo_env (demo_request m admin_token i owner) = Authorized"
  by (simp add: verifyAdminAuth_def authHeader_def truthy_def demo_defs)



lemma log_fetch: "log (snd (fetch c w)) = log w @ [c]"
  unfolding fetch_def Let_def by (cases "upcoming w") simp_all

lemma upcoming_refuse: "pending w = Refuse st txt # rest \<Longrightarrow> upcoming w = Refuse st txt"
  by (simp add: upcoming_def)

lemma put_branch_log:
  assumes "payload ev = Object b" and "b_id b = Some i" and "isValidUUID i"
    and "ownership_check i (b_owner_id b) w = (None, w1)"
  shows "log (snd (put_branch now ev w)) = log w1 @ [Patch i (updatePayload b now)]"
proof -
  obtain f w2 where f: "fetch (Patch i (updatePayload b now)) w1 = (f, w2)" by fastforce
  then have "log w2 = log w1 @ [Patch i (updatePayload b now)]"
    using log_fetch [of "Patch i (updatePayload b now)" w1] by simp
  then show ?thesis
    unfolding put_branch_valid [OF assms(1-3)] assms(4) using f by (cases f) simp_all
qed

lemma delete_branch_valid:
  assumes "payload ev = Object b" and "b_id b = Some i" and "isValidUUID i"
  shows "delete_branch ev w =
     (case ownership_check i (b_owner_id b) w of
        (Some r, w1) \<Rightarrow> (r, w1)
      | (None, w1) \<Rightarrow>
          (case fetch (Delete i) w1 of
             (Threw msg, w2) \<Rightarrow> (caught msg, w2)
           | (Error_response st txt, w2) \<Rightarrow> (upstream_failed st txt (Error_json ''Delete failed.''), w2)
           | (Ok_response out, w2) \<Rightarrow> (\<lparr>statusCode = 200, body = Deleted_json i\<rparr>, w2)))"
  using assms isValidUUID_nonempty [of i] unfolding delete_branch_def by simp

lemma delete_branch_log:
  assumes "payload ev = Object b" and "b_id b = Some i" and "isValidUUID i"
    and "ownership_check i (b_owner_id b) w = (None, w1)"
  shows "log (snd (delete_branch ev w)) = log w1 @ [Delete i]"
proof -
  obtain f w2 where f: "fetch (Delete i) w1 = (f, w2)" by fastforce
  then have "log w2 = log w1 @ [Delete i]"
    using log_fetch [of "Delete i" w1] by simp
  then show ?thesis
    unfolding delete_branch_valid [OF assms(1-3)] assms(4) using f by (cases f) simp_all
qed

lemma handler_delete:
  assumes "truthy (SUPABASE_URL cfg)" and "truthy (SUPABASE_SERVICE_ROLE_KEY cfg)"
    and "verifyAdminAuth cfg ev = Authorized" and "httpMethod ev = ''DELETE''"
  shows "handler cfg now uuid ev w = delete_branch ev w"
  using assms unfolding handler_def by simp

lemma verifyAdminAuth_payload [simp]:
  "verifyAdminAuth cfg (ev\<lparr>payload := p\<rparr>) = verifyAdminAuth cfg ev"
  by (simp add: verifyAdminAuth_def authHeader_def)

lemma updatePayload_owner [simp]: "updatePayload (b\<lparr>b_owner_id := x\<rparr>) now = updatePayload b now"
  by (simp add: updatePayload_def)

lemma select_owner_single_failed:
  "upcoming w = Refuse st txt \<or> upcoming w = Unreachable txt \<Longrightarrow>
   select_owner_single i w = (Inl txt, w\<lparr>pending := tl (pending w), log := log w @ [Select_owner i]\<rparr>)"
  by (auto simp: select_owner_single_def fetch_refuse fetch_unreachable)

text \<open>
  When \<open>fetch\<close> itself throws during the lookup, the admin function ends in its
  \<open>catch\<close>: it answers 500 and sends nothing more.
\<close>

lemma ownership_check_threw:
  assumes "upcoming w = Unreachable msg" and "B \<noteq> []"
  shows "ownership_check i (Some B) w =
           (Some (caught msg), w\<lparr>pending := tl (pending w), log := log w @ [Select_owner i]\<rparr>)"
  using assms unfolding ownership_check_def by (simp add: fetch_unreachable)

lemmas run_defs = handler_def blog_post_handler_def post_branch_def put_branch_def
  delete_branch_def get_branch_def fetch_posts_def ownership_check_def fetch_def upcoming_def
  verifyAdminAuth_def authHeader_def truthy_def jtruthy_def isValidUUID_def uuidRegex_def
  updatePayload_def when_truthy_def upstream_failed_def caught_def has_id_def field_def
  owner_column_def AList.merge_def Let_def




text \<open>
  C2, as amended. The ownership lookup fails. In the admin function, when the
  table answers the lookup with a non-2xx status, a PUT or DELETE with a non-empty
  \<open>owner_id\<close> behaves exactly as the same request without \<open>owner_id\<close> does after the
  lookup: the check is skipped and the update or deletion is sent. When the lookup
  fails with an error, that is when \<open>fetch\<close> throws, the admin function answers 500
  with the message of the error and sends nothing more. \<open>updateFarm\<close> and
  \<open>deleteFarm\<close>, whether the lookup is answered with a non-2xx status or with an
  error, return that error and send nothing else.
\<close>

theorem failed_lookup_paths:
  assumes "isValidUUID i" and "pending w = r # rest"
  shows "(truthy (SUPABASE_URL cfg) \<and> truthy (SUPABASE_SERVICE_ROLE_KEY cfg)
          \<and> verifyAdminAuth cfg ev = Authorized
          \<and> payload ev = Object b \<and> b_id b = Some i \<and> b_owner_id b = Some ow \<and> ow \<noteq> []
          \<longrightarrow> (r = Refuse st txt \<longrightarrow>
                 (httpMethod ev = ''PUT'' \<longrightarrow>
                    handler cfg now uuid ev w
                      = handler cfg now uuid (ev\<lparr>payload := Object (b\<lparr>b_owner_id := None\<rparr>)\<rparr>)
                          (w\<lparr>pending := rest, log := log w @ [Select_owner i]\<rparr>)
                    \<and> log (snd (handler cfg now uuid ev w))
                        = log w @ [Select_owner i, Patch i (updatePayload b now)])
                 \<and> (httpMethod ev = ''DELETE'' \<longrightarrow>
                    handler cfg now uuid ev w
                      = handler cfg now uuid (ev\<lparr>payload := Object (b\<lparr>b_owner_id := None\<rparr>)\<rparr>)
                          (w\<lparr>pending := rest, log := log w @ [Select_owner i]\<rparr>)
                    \<and> log (snd (handler cfg now uuid ev w)) = log w @ [Select_owner i, Delete i]))
              \<and> (r = Unreachable txt \<and> (httpMethod ev = ''PUT'' \<or> httpMethod ev = ''DELETE'')
                  \<longrightarrow> handler cfg now uuid ev w
                        = (\<lparr>statusCode = 500,
                             body = Error_json (if txt = [] then ''Server error'' else txt)\<rparr>,
                           w\<lparr>pending := rest, log := log w @ [Select_owner i]\<rparr>)))
       \<and> (r = Refuse st txt \<or> r = Unreachable txt
          \<longrightarrow> updateFarm user now i farmData w
                = (Failure txt, w\<lparr>pending := rest, log := log w @ [Select_owner i]\<rparr>)
              \<and> deleteFarm user i w
                = (Failure txt, w\<lparr>pending := rest, log := log w @ [Select_owner i]\<rparr>))"
proof (intro conjI impI)
  have tl: "tl (pending w) = rest" using assms(2) by simp
  {
    assume "r = Refuse st txt \<or> r = Unreachable txt"
    then have up: "upcoming w = Refuse st txt \<or> upcoming w = Unreachable txt"
      using assms(2) by (auto simp: upcoming_def)
    show "updateFarm user now i farmData w
           = (Failure txt, w\<lparr>pending := rest, log := log w @ [Select_owner i]\<rparr>)"
      using assms(1) by (simp add: updateFarm_def select_owner_single_failed [OF up] tl)
    show "deleteFarm user i w
           = (Failure txt, w\<lparr>pending := rest, log := log w @ [Select_owner i]\<rparr>)"
      using assms(1) by (simp add: deleteFarm_def select_owner_single_failed [OF up] tl)
  }
  {
    assume a: "truthy (SUPABASE_URL cfg) \<and> truthy (SUPABASE_SERVICE_ROLE_KEY cfg)
          \<and> verifyAdminAuth cfg ev = Authorized
          \<and> payload ev = Object b \<and> b_id b = Some i \<and> b_owner_id b = Some ow \<and> ow \<noteq> []"
    then have cfg: "truthy (SUPABASE_URL cfg)" "truthy (SUPABASE_SERVICE_ROLE_KEY cfg)"
      and au: "verifyAdminAuth cfg ev = Authorized"
      and pl: "payload ev = Object b" "b_id b = Some i"
      and ow: "b_owner_id b = Some ow" "ow \<noteq> []" by simp_all
    let ?w1 = "w\<lparr>pending := rest, log := log w @ [Select_owner i]\<rparr>"
    let ?ev = "ev\<lparr>payload := Object (b\<lparr>b_owner_id := None\<rparr>)\<rparr>"
    {
      assume t: "r = Unreachable txt \<and> (httpMethod ev = ''PUT'' \<or> httpMethod ev = ''DELETE'')"
      then have up: "upcoming w = Unreachable txt" using assms(2) by (simp add: upcoming_def)
      have threw: "ownership_check i (b_owner_id b) w = (Some (caught txt), ?w1)"
        using ownership_check_threw [OF up ow(2)] ow(1) tl by simp
      from t show "handler cfg now uuid ev w
                = (\<lparr>statusCode = 500,
                     body = Error_json (if txt = [] then ''Server error'' else txt)\<rparr>, ?w1)"
      proof (elim conjE disjE)
        assume m: "httpMethod ev = ''PUT''"
        show ?thesis
          unfolding handler_put [OF cfg au m] put_branch_valid [OF pl assms(1)] threw
          by (simp add: caught_def)
      next
        assume m: "httpMethod ev = ''DELETE''"
        show ?thesis
          unfolding handler_delete [OF cfg au m] delete_branch_valid [OF pl assms(1)] threw
          by (simp add: caught_def)
      qed
    }
    assume "r = Refuse st txt"
    then have up: "upcoming w = Refuse st txt" using assms(2) by (simp add: upcoming_def)
    have skipped: "ownership_check i (b_owner_id b) w = (None, ?w1)"
      using ownership_check_refused [OF up ow(2)] ow(1) tl by simp
    have absent: "ownership_check i (b_owner_id (b\<lparr>b_owner_id := None\<rparr>)) ?w1 = (None, ?w1)"
      by (simp add: ownership_check_def)
    have pl': "payload ?ev = Object (b\<lparr>b_owner_id := None\<rparr>)"
      "b_id (b\<lparr>b_owner_id := None\<rparr>) = Some i" using pl by simp_all
    {
      assume m: "httpMethod ev = ''PUT''"
      have h: "handler cfg now uuid ev w = put_branch now ev w"
        by (rule handler_put [OF cfg au m])
      have h': "handler cfg now uuid ?ev ?w1 = put_branch now ?ev ?w1"
        by (rule handler_put [OF cfg]) (simp_all add: au m)
      show "handler cfg now uuid ev w = handler cfg now uuid ?ev ?w1"
        unfolding h h' put_branch_valid [OF pl assms(1)] put_branch_valid [OF pl' assms(1)]
          skipped absent by simp
      show "log (snd (handler cfg now uuid ev w))
              = log w @ [Select_owner i, Patch i (updatePayload b now)]"
        unfolding h put_branch_log [OF pl assms(1) skipped] by simp
    }
    {
      assume m: "httpMethod ev = ''DELETE''"
      have h: "handler cfg now uuid ev w = delete_branch ev w"
        by (rule handler_delete [OF cfg au m])
      have h': "handler cfg now uuid ?ev ?w1 = delete_branch ?ev ?w1"
        by (rule handler_delete [OF cfg]) (simp_all add: au m)
      show "handler cfg now uuid ev w = handler cfg now uuid ?ev ?w1"
        unfolding h h' delete_branch_valid [OF pl assms(1)] delete_branch_valid [OF pl' assms(1)]
          skipped absent by simp
      show "log (snd (handler cfg now uuid ev w)) = log w @ [Select_owner i, Delete i]"
        unfolding h delete_branch_log [OF pl assms(1) skipped] by simp
    }
  }
qed

text \<open>
  The theorem on the sample post owned by \<open>A\<close>. With the lookup refused with 503,
  the update and the deletion by \<open>B\<close> both go through, and the two farm helpers fail
  with the text of the refusal and leave the table alone. With a lookup that
  throws, the update by \<open>B\<close> is answered 500 and the post stays as it was.
\<close>

theorem failed_lookup_paths_witness:
  "handler demo_env ''t1'' [] (demo_request ''PUT'' admin_token (Some demo_id) (Some ''B''))
       (demo_world [Refuse 503 ''unavailable''])
     = (\<lparr>statusCode = 200,
         body = Rows [[(''id'', JStr demo_id), (''title'', JStr ''Harvest 2''),
                       (''owner_id'', JStr ''A''), (''updated_at'', JStr ''t1'')]]\<rparr>,
        \<lparr>rows = [[(''id'', JStr demo_id), (''title'', JStr ''Harvest 2''),
                  (''owner_id'', JStr ''A''), (''updated_at'', JStr ''t1'')]],
         pending = [],
         log = [Select_owner demo_id,
                Patch demo_id [(''title'', JStr ''Harvest 2''), (''updated_at'', JStr ''t1'')]]\<rparr>)
   \<and> handler demo_env ''t1'' [] (demo_request ''DELETE'' admin_token (Some demo_id) (Some ''B''))
       (demo_world [Refuse 503 ''unavailable''])
     = (\<lparr>statusCode = 200, body = Deleted_json demo_id\<rparr>,
        \<lparr>rows = [], pending = [], log = [Select_owner demo_id, Delete demo_id]\<rparr>)
   \<and> updateFarm (Some ''B'') ''t1'' demo_id [(''name'', JStr ''Volta Farm'')]
       (demo_world [Refuse 503 ''unavailable''])
     = (Failure ''unavailable'', \<lparr>rows = [demo_post], pending = [], log = [Select_owner demo_id]\<rparr>)
   \<and> deleteFarm (Some ''B'') demo_id (demo_world [Refuse 503 ''unavailable''])
     = (Failure ''unavailable'', \<lparr>rows = [demo_post], pending = [], log = [Select_owner demo_id]\<rparr>)
   \<and> handler demo_env ''t1'' [] (demo_request ''PUT'' admin_token (Some demo_id) (Some ''B''))
       (demo_world [Unreachable ''socket hang up''])
     = (\<lparr>statusCode = 500, body = Error_json ''socket hang up''\<rparr>,
        \<lparr>rows = [demo_post], pending = [], log = [Select_owner demo_id]\<rparr>)
   \<and> deleteFarm (Some ''B'') demo_id (demo_world [Unreachable ''socket hang up''])
     = (Failure ''socket hang up'',
        \<lparr>rows = [demo_post], pending = [], log = [Select_owner demo_id]\<rparr>)"
proof -
  have p: "pending (demo_world [Refuse 503 ''unavailable'']) = Refuse 503 ''unavailable'' # []"
    and q: "pending (demo_world [Unreachable ''socket hang up'']) = Unreachable ''socket hang up'' # []"
    by (simp_all add: demo_world_def)
  note t = failed_lookup_paths [OF demo_id_valid p, of _ _ _ _ 503 "''unavailable''"]
  note u = failed_lookup_paths [OF demo_id_valid q, of _ _ _ _ 0 "''socket hang up''"]
  have pre: "truthy (SUPABASE_URL demo_env) \<and> truthy (SUPABASE_SERVICE_ROLE_KEY demo_env)
      \<and> verifyAdminAuth demo_env (demo_request m admin_token (Some demo_id) (Some ''B'')) = Authorized
      \<and> payload (demo_request m admin_token (Some demo_id) (Some ''B''))
          = Object (demo_fields (Some demo_id) (Some ''B''))
      \<and> b_id (demo_fields (Some demo_id) (Some ''B'')) = Some demo_id
      \<and> b_owner_id (demo_fields (Some demo_id) (Some ''B'')) = Some ''B'' \<and> ''B'' \<noteq> []" for m
    by (simp add: demo_authorized) (simp add: truthy_def demo_env_def demo_request_def demo_fields_def)
  have put: "httpMethod (demo_request ''PUT'' admin_token (Some demo_id) (Some ''B'')) = ''PUT''"
    and del: "httpMethod (demo_request ''DELETE'' admin_token (Some demo_id) (Some ''B'')) = ''DELETE''"
    by (simp_all add: demo_request_def)
  note tr = t [THEN conjunct1, rule_format, OF pre, THEN conjunct1, rule_format, OF refl]
  note tp = tr [THEN conjunct1, rule_format, OF put, THEN conjunct1]
  note td = tr [THEN conjunct2, rule_format, OF del, THEN conjunct1]
  have failed: "Refuse 503 ''unavailable'' = Refuse 503 ''unavailable''
      \<or> Refuse 503 ''unavailable'' = Unreachable ''unavailable''" by simp
  note tu = t [THEN conjunct2, rule_format, OF failed, THEN conjunct1]
  note tf = t [THEN conjunct2, rule_format, OF failed, THEN conjunct2]
  have threw: "Unreachable ''socket hang up'' = Unreachable ''socket hang up''
      \<and> (httpMethod (demo_request ''PUT'' admin_token (Some demo_id) (Some ''B'')) = ''PUT''
         \<or> httpMethod (demo_request ''PUT'' admin_token (Some demo_id) (Some ''B'')) = ''DELETE'')"
    by (simp add: put)
  note ut = u [THEN conjunct1, rule_format, OF pre, THEN conjunct2, rule_format, OF threw]
  have failed': "Unreachable ''socket hang up'' = Refuse 0 ''socket hang up''
      \<or> Unreachable ''socket hang up'' = Unreachable ''socket hang up''" by simp
  note uf = u [THEN conjunct2, rule_format, OF failed', THEN conjunct2]
  show ?thesis
    unfolding tp td tu tf ut uf by (simp add: run_defs demo_defs)
qed

text \<open>
  C2 as stated fails for the second kind of failure it names: when the lookup of
  the admin function ends in an error, the update by \<open>B\<close> is not sent; the answer
  is 500 and the only request in the log is the lookup.
\<close>

theorem failed_lookup_paths_counterexample:
  "handler demo_env ''t1'' [] (demo_request ''PUT'' admin_token (Some demo_id) (Some ''B''))
       (demo_world [Unreachable ''network error''])
     = (\<lparr>statusCode = 500, body = Error_json ''network error''\<rparr>,
        \<lparr>rows = [demo_post], pending = [], log = [Select_owner demo_id]\<rparr>)
   \<and> handler demo_env ''t1'' [] (demo_request ''DELETE'' admin_token (Some demo_id) (Some ''B''))
       (demo_world [Unreachable ''network error''])
     = (\<lparr>statusCode = 500, body = Error_json ''network error''\<rparr>,
        \<lparr>rows = [demo_post], pending = [], log = [Select_owner demo_id]\<rparr>)"
  by (simp add: run_defs demo_defs)





text \<open>
  C4, as amended. In the configured admin function, for an id that is not of the
  UUID v4 shape: a GET whose \<open>id\<close> parameter is that id, not empty, is answered 400;
  a PUT or DELETE that carries the admin token and a JSON body with that id is
  answered 400; in both cases nothing is sent to the table.
\<close>

theorem malformed_id_rejected:
  assumes "truthy (SUPABASE_URL cfg)" and "truthy (SUPABASE_SERVICE_ROLE_KEY cfg)"
    and "\<not> isValidUUID i"
  shows "(httpMethod ev = ''GET'' \<and> query_id ev = Some i \<and> i \<noteq> []
          \<longrightarrow> handler cfg now uuid ev w
              = (\<lparr>statusCode = 400, body = Error_json ''Invalid UUID format for id.''\<rparr>, w))
       \<and> (httpMethod ev \<in> {''PUT'', ''DELETE''} \<and> verifyAdminAuth cfg ev = Authorized
            \<and> payload ev = Object b \<and> b_id b = Some i
          \<longrightarrow> statusCode (fst (handler cfg now uuid ev w)) = 400
              \<and> snd (handler cfg now uuid ev w) = w)"
  using assms unfolding handler_def get_branch_def put_branch_def delete_branch_def
  by (auto simp: truthy_def)

text \<open>
  The theorem at the id \<open>42\<close>.
\<close>

theorem malformed_id_rejected_witness:
  "handler demo_env ''t1'' [] (demo_request ''GET'' [] None None\<lparr>query_id := Some ''42''\<rparr>)
       (demo_world [])
     = (\<lparr>statusCode = 400, body = Error_json ''Invalid UUID format for id.''\<rparr>, demo_world [])
   \<and> statusCode (fst (handler demo_env ''t1'' []
        (demo_request ''PUT'' admin_token (Some ''42'') None) (demo_world []))) = 400
   \<and> snd (handler demo_env ''t1'' []
        (demo_request ''PUT'' admin_token (Some ''42'') None) (demo_world [])) = demo_world []"
proof -
  have cfg: "truthy (SUPABASE_URL demo_env)" "truthy (SUPABASE_SERVICE_ROLE_KEY demo_env)"
    by (simp_all add: truthy_def demo_env_def)
  have bad: "\<not> isValidUUID ''42''" by (simp add: isValidUUID_def uuidRegex_def)
  note m = malformed_id_rejected [OF cfg bad]
  have a1: "httpMethod (demo_request ''GET'' [] None None\<lparr>query_id := Some ''42''\<rparr>) = ''GET''
     \<and> query_id (demo_request ''GET'' [] None None\<lparr>query_id := Some ''42''\<rparr>) = Some ''42''
     \<and> ''42'' \<noteq> []"
    by (simp add: demo_request_def)
  have a2: "httpMethod (demo_request ''PUT'' admin_token (Some ''42'') None) \<in> {''PUT'', ''DELETE''}
     \<and> verifyAdminAuth demo_env (demo_request ''PUT'' admin_token (Some ''42'') None) = Authorized
     \<and> payload (demo_request ''PUT'' admin_token (Some ''42'') None)
         = Object (demo_fields (Some ''42'') None)
     \<and> b_id (demo_fields (Some ''42'') None) = Some ''42''"
    by (simp add: demo_authorized) (simp add: demo_request_def demo_fields_def)
  from m [THEN conjunct1, rule_format, OF a1] m [THEN conjunct2, rule_format, OF a2]
  show ?thesis by simp
qed

text \<open>
  C4 as stated fails: the empty id is not of the UUID shape, and a GET with
  \<open>?id=\<close> lists every post; a PUT with the id \<open>42\<close> and no token is answered 401;
  and a GET with the id \<open>42\<close> is answered 500 when the service key is not set.
\<close>

theorem malformed_id_rejected_counterexample:
  "\<not> isValidUUID ''''
   \<and> handler demo_env ''t1'' [] (demo_request ''GET'' [] None None\<lparr>query_id := Some ''''\<rparr>)
       (demo_world [])
     = (\<lparr>statusCode = 200, body = Rows [demo_post]\<rparr>,
        \<lparr>rows = [demo_post], pending = [], log = [Select_all]\<rparr>)
   \<and> \<not> isValidUUID ''42''
   \<and> handler demo_env ''t1'' [] (demo_request ''PUT'' [] (Some ''42'') None) (demo_world [])
     = (\<lparr>statusCode = 401, body = Error_json ''Missing Authorization header''\<rparr>, demo_world [])
   \<and> handler (demo_env\<lparr>SUPABASE_SERVICE_ROLE_KEY := None\<rparr>) ''t1'' []
       (demo_request ''GET'' [] None None\<lparr>query_id := Some ''42''\<rparr>) (demo_world [])
     = (\<lparr>statusCode = 500,
         body = Error_json ''Missing SUPABASE_URL or SUPABASE_SERVICE_ROLE_KEY env vars.''\<rparr>,
        demo_world [])"
  by (simp add: run_defs demo_defs)

section \<open>The waitlist signup\<close>

text \<open>The test is the regular expression: a local part, the at sign, a domain with an inner dot.\<close>

lemma plain_class: "plain (email_class c) \<longleftrightarrow> c \<notin> set whitespace \<and> c \<noteq> CHR ''@''"
  by (simp add: plain_def email_class_def)

lemma at_class: "email_class c = At \<longleftrightarrow> c = CHR ''@''"
  by (simp add: email_class_def whitespace_def)

lemma dot_class: "email_class c = Dot \<longleftrightarrow> c = CHR ''.''"
  by (auto simp: email_class_def whitespace_def)

lemma dot_image: "Dot \<in> email_class ` A \<longleftrightarrow> CHR ''.'' \<in> A"
proof
  assume "Dot \<in> email_class ` A"
  then obtain x where "x \<in> A" "email_class x = Dot" by auto
  then show "CHR ''.'' \<in> A" by (simp add: dot_class)
next
  assume "CHR ''.'' \<in> A"
  moreover have "email_class (CHR ''.'') = Dot" by (simp add: dot_class)
  ultimately show "Dot \<in> email_class ` A" by (metis imageI)
qed

lemma emailRegex_test_chars:
  "emailRegex_test s \<longleftrightarrow>
     takeWhile (plain \<circ> email_class) s \<noteq> []
     \<and> (\<exists>d. dropWhile (plain \<circ> email_class) s = CHR ''@'' # d
            \<and> (\<forall>c\<in>set d. plain (email_class c)) \<and> CHR ''.'' \<in> set (butlast (tl d)))"
proof -
  have dot: "Dot \<in> set (butlast (tl (map email_class d))) \<longleftrightarrow> CHR ''.'' \<in> set (butlast (tl d))"
    for d
  proof -
    have "butlast (tl (map email_class d)) = map email_class (butlast (tl d))"
      by (simp add: map_butlast map_tl)
    then show ?thesis by (simp add: dot_image)
  qed
  have tail: "(case map email_class xs of
                 At # d \<Rightarrow> list_all plain d \<and> Dot \<in> set (butlast (tl d))
               | _ \<Rightarrow> False)
              \<longleftrightarrow> (\<exists>d. xs = CHR ''@'' # d \<and> (\<forall>c\<in>set d. plain (email_class c))
                         \<and> CHR ''.'' \<in> set (butlast (tl d)))" for xs
  proof (cases xs)
    case Nil
    then show ?thesis by simp
  next
    case (Cons c d)
    show ?thesis
    proof (cases "c = CHR ''@''")
      case True
      then have "email_class c = At" by (simp add: at_class)
      with Cons True show ?thesis by (simp add: dot list_all_iff)
    next
      case False
      then have "email_class c \<noteq> At" by (simp add: at_class)
      with Cons False show ?thesis by (cases "email_class c") simp_all
    qed
  qed
  show ?thesis
    unfolding emailRegex_test_def Let_def takeWhile_map dropWhile_map tail by simp
qed

lemma emailRegex_test_shape:
  "emailRegex_test s \<longleftrightarrow>
     (\<exists>l m r. s = l @ ''@'' @ m @ ''.'' @ r \<and> l \<noteq> [] \<and> m \<noteq> [] \<and> r \<noteq> []
        \<and> (\<forall>c\<in>set (l @ m @ r). c \<notin> set whitespace \<and> c \<noteq> CHR ''@''))"
proof
  assume "emailRegex_test s"
  then obtain d where l: "takeWhile (plain \<circ> email_class) s \<noteq> []"
    and d: "dropWhile (plain \<circ> email_class) s = CHR ''@'' # d"
    and pd: "\<forall>c\<in>set d. plain (email_class c)" and dot: "CHR ''.'' \<in> set (butlast (tl d))"
    unfolding emailRegex_test_chars by blast
  from dot obtain a b where ab: "butlast (tl d) = a @ CHR ''.'' # b"
    by (meson split_list)
  then have "tl d \<noteq> []" by auto
  then obtain h t where ht: "d = h # t" "t \<noteq> []" by (cases d) auto
  then have t: "t = a @ CHR ''.'' # b @ [last t]"
    using ab append_butlast_last_id [of t] by simp
  have s: "s = takeWhile (plain \<circ> email_class) s @ ''@'' @ (h # a) @ ''.'' @ (b @ [last t])"
    using takeWhile_dropWhile_id [of "plain \<circ> email_class" s] d ht(1) t by simp
  have "\<forall>c\<in>set (takeWhile (plain \<circ> email_class) s). plain (email_class c)"
    by (auto dest: set_takeWhileD)
  moreover have "\<forall>c\<in>set ((h # a) @ (b @ [last t])). plain (email_class c)"
  proof
    fix c assume "c \<in> set ((h # a) @ (b @ [last t]))"
    then have "c \<in> set d" using ht(1) t by (metis Un_iff append_Cons list.set_intros(2) set_append)
    with pd show "plain (email_class c)" by blast
  qed
  ultimately have "\<forall>c\<in>set (takeWhile (plain \<circ> email_class) s @ (h # a) @ (b @ [last t])).
      c \<notin> set whitespace \<and> c \<noteq> CHR ''@''"
    by (auto simp: plain_class)
  with s l show "\<exists>l m r. s = l @ ''@'' @ m @ ''.'' @ r \<and> l \<noteq> [] \<and> m \<noteq> [] \<and> r \<noteq> []
        \<and> (\<forall>c\<in>set (l @ m @ r). c \<notin> set whitespace \<and> c \<noteq> CHR ''@'')"
    by blast
next
  assume "\<exists>l m r. s = l @ ''@'' @ m @ ''.'' @ r \<and> l \<noteq> [] \<and> m \<noteq> [] \<and> r \<noteq> []
        \<and> (\<forall>c\<in>set (l @ m @ r). c \<notin> set whitespace \<and> c \<noteq> CHR ''@'')"
  then obtain l m r where s: "s = l @ CHR ''@'' # m @ CHR ''.'' # r"
    and ne: "l \<noteq> []" "m \<noteq> []" "r \<noteq> []"
    and pl: "\<forall>c\<in>set l. plain (email_class c)" "\<forall>c\<in>set m. plain (email_class c)"
      "\<forall>c\<in>set r. plain (email_class c)"
    by (auto simp: plain_class)
  have nat: "\<not> (plain \<circ> email_class) (CHR ''@'')" by (simp add: plain_class)
  have tw: "takeWhile (plain \<circ> email_class) s = l"
    unfolding s using pl(1) nat by simp
  have dw: "dropWhile (plain \<circ> email_class) s = CHR ''@'' # m @ CHR ''.'' # r"
    unfolding s using pl(1) nat by simp
  obtain h t where m: "m = h # t" using ne(2) by (cases m) auto
  have "butlast (tl (m @ CHR ''.'' # r)) = t @ CHR ''.'' # butlast r"
    using ne(3) by (simp add: m butlast_append)
  then have dot: "CHR ''.'' \<in> set (butlast (tl (m @ CHR ''.'' # r)))" by simp
  have "\<forall>c\<in>set (m @ CHR ''.'' # r). plain (email_class c)"
    using pl(2,3) by (auto simp: plain_class whitespace_def)
  with tw dw dot ne(1) show "emailRegex_test s"
    unfolding emailRegex_test_chars by blast
qed


























section \<open>The CSV export\<close>

lemma dquote_newline [simp]: "dquote \<noteq> newline" "newline \<noteq> dquote"
  "dquote \<noteq> CHR '',''" "newline \<noteq> CHR '',''" "CHR '','' \<noteq> dquote" "CHR '','' \<noteq> newline"
  by (simp_all add: dquote_def newline_def)

lemma replace_quotes_map:
  "replace_quotes s = concat (map (\<lambda>c. if c = dquote then [dquote, dquote] else [c]) s)"
  by (induction s) auto

lemma set_replace_quotes: "set (replace_quotes s) = set s"
  by (induction s) auto

lemma count_replace_quotes:
  "count_list (replace_quotes s) dquote = 2 * count_list s dquote"
  by (induction s) auto

lemma escape_value:
  "v \<noteq> JNull \<Longrightarrow>
   escape (Some v) =
     (if CHR '','' \<in> set (to_String v) \<or> newline \<in> set (to_String v)
      then [dquote] @ replace_quotes (to_String v) @ [dquote]
      else replace_quotes (to_String v))"
  unfolding escape_def by (cases v) (simp_all add: Let_def includes_char set_replace_quotes)













text \<open>
  C10. \<open>escape\<close> doubles every double quote of a string and wraps the result in
  double quotes exactly when the string has a comma or a line break. So a string
  with a double quote and neither comma nor line break comes out with its quotes
  doubled and nothing around it.
\<close>

theorem escape_quoting:
  "replace_quotes s = concat (map (\<lambda>c. if c = dquote then [dquote, dquote] else [c]) s)
   \<and> escape (Some (JStr s))
       = (if CHR '','' \<in> set s \<or> newline \<in> set s
          then [dquote] @ replace_quotes s @ [dquote] else replace_quotes s)
   \<and> (dquote \<in> set s \<and> CHR '','' \<notin> set s \<and> newline \<notin> set s
        \<longrightarrow> escape (Some (JStr s)) = replace_quotes s
            \<and> escape (Some (JStr s)) \<noteq> [dquote] @ replace_quotes s @ [dquote]
            \<and> count_list (escape (Some (JStr s))) dquote = 2 * count_list s dquote)"
  by (simp add: escape_value count_replace_quotes replace_quotes_map [symmetric])

text \<open>
  The theorem at the string \<open>6" pot\<close>.
\<close>

theorem escape_quoting_witness:
  "escape (Some (JStr [CHR ''6'', dquote, CHR '' '', CHR ''p'', CHR ''o'', CHR ''t'']))
     = [CHR ''6'', dquote, dquote, CHR '' '', CHR ''p'', CHR ''o'', CHR ''t'']
   \<and> count_list (escape (Some (JStr [CHR ''6'', dquote, CHR '' '', CHR ''p'', CHR ''o'', CHR ''t''])))
        dquote = 2"
  using escape_quoting [of "[CHR ''6'', dquote, CHR '' '', CHR ''p'', CHR ''o'', CHR ''t'']"]
  by (simp add: dquote_def newline_def)

end
